theory Spec2Isabelle
  imports Main
begin

section \<open>Receiving commands through a FIFO (qutebrowser/misc/fifo.py)\<close>

text \<open>
  The module keeps one process-wide reader on the named pipe \<open><runtime>/fifo\<close>. Everything
  it does is an effect on the operating system, on Qt objects or on other qutebrowser
  modules, so the embedding threads one explicit \<open>world\<close> through every function and
  returns a raised exception as a value together with the world in which it was raised.
\<close>

subsection \<open>Values of the Python runtime\<close>

datatype os_errno = ENOENT | EEXIST | EACCES | EISDIR

text \<open>
  The exceptions the module can meet. \<open>OSError\<close> stands for the class and its subclasses
  (\<open>FileNotFoundError\<close>, \<open>FileExistsError\<close>, \<open>PermissionError\<close>, \<open>IsADirectoryError\<close>),
  which is what \<open>except OSError\<close> catches. \<open>NoTargetError\<close> is the failure of a window
  lookup. \<open>UnicodeDecodeError\<close> is raised by the text file on bytes its codec rejects.
\<close>

datatype py_error =
    OSError os_errno
  | AttributeError
  | ValueError
  | UnboundLocalError
  | UnicodeDecodeError
  | NoTargetError

datatype fs_entry = Fifo | RegularFile | Directory

text \<open>The two calls of \<open>message.error('current', ...)\<close>, with the errno they format.\<close>

datatype notice = CouldntRemove os_errno | CouldntCreate os_errno

abbreviation LF :: char where "LF \<equiv> CHR 0x0A"
abbreviation CR :: char where "CR \<equiv> CHR 0x0D"

subsection \<open>State\<close>

text \<open>
  An instance of class \<open>QtFIFOReader\<close>: whether its \<open>QSocketNotifier\<close> is enabled and
  whether its file object \<open>_fifo\<close> has been closed.
\<close>

record QtFIFOReader =
  notifier_enabled :: bool
  fifo_closed :: bool

text \<open>
  \<^item> \<open>os_posix\<close>: \<open>os.name == 'posix'\<close>;
  \<^item> \<open>fifo_entry\<close>: what the filesystem holds at \<open><runtime>/fifo\<close>;
  \<^item> \<open>dir_writable\<close>: whether the runtime directory lets the process create and delete
    entries;
  \<^item> \<open>pipe_bytes\<close>: the bytes written to the pipe and not yet read;
  \<^item> \<open>codec_error\<close>: the verdict of the locale's codec, which \<open>os.fdopen(fd, 'r')\<close> decodes
    with, on pending bytes that are not all ASCII: \<open>None\<close> when it decodes them, and
    \<open>Some (ls, rest)\<close> when the loop raises \<open>UnicodeDecodeError\<close> after the iterator has
    handed out the lines \<open>ls\<close>, with \<open>rest\<close> left unread in the pipe (the text file decodes
    chunk by chunk, so the lines of earlier chunks come out before a later chunk fails);
  \<^item> \<open>reader\<close>: the module global \<open>reader\<close> (\<open>None\<close> until \<open>init\<close> assigns it);
  \<^item> \<open>win_mode\<close>: the setting \<open>general / new-instance-open-target.window\<close>;
  \<^item> \<open>focused_window\<close>, \<open>opened_window\<close>, \<open>visible_window\<close>: the id of the window each
    registry lookup would find, if any;
  \<^item> \<open>shown_errors\<close>: the notifications issued through \<open>message.error\<close>;
  \<^item> \<open>emitted\<close>: the arguments of every \<open>got_line.emit\<close>;
  \<^item> \<open>executed\<close>: the arguments of every \<open>CommandRunner(win_id).run_safely(cmd)\<close>;
  \<^item> \<open>slot_errors\<close>: the exceptions raised inside a slot connected to \<open>got_line\<close>.
\<close>

record world =
  os_posix :: bool
  fifo_entry :: "fs_entry option"
  dir_writable :: bool
  pipe_bytes :: string
  codec_error :: "string \<Rightarrow> (string list \<times> string) option"
  reader :: "QtFIFOReader option"
  win_mode :: string
  focused_window :: "nat option"
  opened_window :: "nat option"
  visible_window :: "nat option"
  shown_errors :: "notice list"
  emitted :: "string list"
  executed :: "(nat \<times> string) list"
  slot_errors :: "py_error list"

text \<open>
  A call either returns (\<open>Inr\<close>, with the world it leaves) or raises (\<open>Inl\<close>, with the
  exception and the world at the raise).
\<close>

type_synonym outcome = "(py_error \<times> world) + world"

definition raised :: "outcome \<Rightarrow> py_error option" where
  "raised res = (case res of Inl (e, w) \<Rightarrow> Some e | Inr w \<Rightarrow> None)"

definition world_of :: "outcome \<Rightarrow> world" where
  "world_of res = (case res of Inl (e, w) \<Rightarrow> w | Inr w \<Rightarrow> w)"

text \<open>An external process writes bytes into the pipe.\<close>

definition write_pipe :: "string \<Rightarrow> world \<Rightarrow> world" where
  "write_pipe bs w = w\<lparr>pipe_bytes := pipe_bytes w @ bs\<rparr>"

subsection \<open>Operating-system calls on the pipe path\<close>

definition os_path_exists :: "world \<Rightarrow> bool" where
  "os_path_exists w = (fifo_entry w \<noteq> None)"

text \<open>\<open>os.remove\<close>: unlinks the entry. It fails, in this order, on a missing entry
  (\<open>ENOENT\<close>), in a directory that does not permit it (\<open>EACCES\<close>), and on an entry that is
  itself a directory (\<open>EISDIR\<close>).\<close>

definition os_remove :: "world \<Rightarrow> os_errno + world" where
  "os_remove w =
     (case fifo_entry w of
        None \<Rightarrow> Inl ENOENT
      | Some entry \<Rightarrow>
          if \<not> dir_writable w then Inl EACCES
          else if entry = Directory then Inl EISDIR
          else Inr (w\<lparr>fifo_entry := None\<rparr>))"

text \<open>\<open>os.mkfifo\<close>: exists on POSIX only (elsewhere the attribute lookup on \<open>os\<close> raises
  \<open>AttributeError\<close>); fails when the path is taken or the directory does not permit it; a
  new pipe is empty.\<close>

definition os_mkfifo :: "world \<Rightarrow> py_error + world" where
  "os_mkfifo w =
     (if \<not> os_posix w then Inl AttributeError
      else if fifo_entry w \<noteq> None then Inl (OSError EEXIST)
      else if \<not> dir_writable w then Inl (OSError EACCES)
      else Inr (w\<lparr>fifo_entry := Some Fifo, pipe_bytes := []\<rparr>))"

text \<open>\<open>os.open(filepath, os.O_RDWR | os.O_NONBLOCK)\<close>: no \<open>O_CREAT\<close>, so a missing path
  fails; a directory cannot be opened for writing.\<close>

definition os_open :: "world \<Rightarrow> py_error + unit" where
  "os_open w =
     (if \<not> os_posix w then Inl AttributeError
      else case fifo_entry w of
        None \<Rightarrow> Inl (OSError ENOENT)
      | Some Directory \<Rightarrow> Inl (OSError EISDIR)
      | Some _ \<Rightarrow> Inr ())"

definition message_error :: "notice \<Rightarrow> world \<Rightarrow> world" where
  "message_error n w = w\<lparr>shown_errors := shown_errors w @ [n]\<rparr>"

subsection \<open>Text lines of the file object\<close>

text \<open>
  \<open>os.fdopen(fd, 'r')\<close> is a text file that decodes with the locale's codec, in strict
  mode. Bytes below 0x80 are ASCII in every locale codec and always decode; a decoded text
  is written here as the bytes it came from. For any other content the world's
  \<open>codec_error\<close> says whether the codec decodes it or the loop ends in
  \<open>UnicodeDecodeError\<close>.
\<close>

definition ascii_text :: "string \<Rightarrow> bool" where
  "ascii_text bs = list_all (\<lambda>c. \<not> digit7 c) bs"

definition decode_error :: "world \<Rightarrow> string \<Rightarrow> (string list \<times> string) option" where
  "decode_error w bs = (if ascii_text bs then None else codec_error w bs)"

text \<open>
  The text file is in universal-newlines mode: \<open>\r\n\<close> and a lone \<open>\r\<close> are both read as
  \<open>\n\<close>.
\<close>

fun universal_newlines :: "string \<Rightarrow> string" where
  "universal_newlines [] = []"
| "universal_newlines [c] = (if c = CR then [LF] else [c])"
| "universal_newlines (c # d # ds) =
     (if c = CR \<and> d = LF then LF # universal_newlines ds
      else if c = CR then LF # universal_newlines (d # ds)
      else c # universal_newlines (d # ds))"

text \<open>
  \<open>for line in self._fifo\<close> calls \<open>readline\<close> until it returns the empty string. Each
  line keeps its \<open>\n\<close>. The descriptor is non-blocking: when the pipe is empty the read
  returns no data, which the text layer takes for the end of the data, so \<open>readline\<close>
  hands out the pending text without a terminator as a last line.
  \<open>cur\<close> is the text of the line being assembled.
\<close>

fun readlines :: "string \<Rightarrow> string \<Rightarrow> string list" where
  "readlines cur [] = (if cur = [] then [] else [cur])"
| "readlines cur (c # cs) =
     (if c = LF then (cur @ [LF]) # readlines [] cs else readlines (cur @ [c]) cs)"

definition fifo_lines :: "string \<Rightarrow> string list" where
  "fifo_lines bs = readlines [] (universal_newlines bs)"

text \<open>\<open>line.rstrip('\r\n')\<close>: drops every trailing character that is \<open>\r\<close> or \<open>\n\<close>.\<close>

definition rstrip_crlf :: "string \<Rightarrow> string" where
  "rstrip_crlf s = rev (dropWhile (\<lambda>c. c = CR \<or> c = LF) (rev s))"

subsection \<open>Dispatch: \<open>run_command\<close>\<close>

text \<open>
  Modelled from the spec: \<open>objreg.last_focused_window\<close> is not part of the source at
  hand. The spec describes three lookup operations of the target registry, "each returning
  an ExecutionTarget or failing if none exists", and names the failure \<open>NoTargetError\<close>.
  The result is the window's \<open>win_id\<close>.
\<close>

definition last_focused_window :: "world \<Rightarrow> py_error + nat" where
  "last_focused_window w =
     (case focused_window w of None \<Rightarrow> Inl NoTargetError | Some i \<Rightarrow> Inr i)"

text \<open>
  Modelled from the spec: \<open>objreg.last_window\<close> is not part of the source at hand; it is
  the registry's lookup of the last opened window, as above.
\<close>

definition last_window :: "world \<Rightarrow> py_error + nat" where
  "last_window w =
     (case opened_window w of None \<Rightarrow> Inl NoTargetError | Some i \<Rightarrow> Inr i)"

text \<open>
  Modelled from the spec: \<open>objreg.last_visible_window\<close> is not part of the source at
  hand; it is the registry's lookup of the last visible window, as above.
\<close>

definition last_visible_window :: "world \<Rightarrow> py_error + nat" where
  "last_visible_window w =
     (case visible_window w of None \<Rightarrow> Inl NoTargetError | Some i \<Rightarrow> Inr i)"

text \<open>
  Modelled from the spec: \<open>runners.CommandRunner(win_id).run_safely(cmd)\<close> is not part of
  the source at hand. The spec describes "one operation accepting (ExecutionTarget,
  CommandLine)" whose failures are its own concern; the model records the invocation.
\<close>

definition run_safely :: "nat \<Rightarrow> string \<Rightarrow> world \<Rightarrow> world" where
  "run_safely win_id cmd w = w\<lparr>executed := executed w @ [(win_id, cmd)]\<rparr>"

text \<open>
  \<open>run_command\<close>: the local \<open>window\<close> is bound by one of three branches and by none of
  them for any other mode (\<open>Inr None\<close> below); reading it unbound raises
  \<open>UnboundLocalError\<close>. A lookup that raises is not caught.
\<close>

definition run_command :: "string \<Rightarrow> world \<Rightarrow> outcome" where
  "run_command cmd w =
     (let mode = win_mode w;
          window =
            (if mode = ''last-focused'' then map_sum id Some (last_focused_window w)
             else if mode = ''last-opened'' then map_sum id Some (last_window w)
             else if mode = ''last-visible'' then map_sum id Some (last_visible_window w)
             else Inr None)
      in case window of
           Inl e \<Rightarrow> Inl (e, w)
         | Inr None \<Rightarrow> Inl (UnboundLocalError, w)
         | Inr (Some win_id) \<Rightarrow> Inr (run_safely win_id cmd w))"

subsection \<open>Class \<open>QtFIFOReader\<close>\<close>

text \<open>
  \<open>got_line.emit(line)\<close>. \<open>init\<close> connects two slots: a debug log, which leaves no
  trace here, and \<open>run_command\<close>. An exception raised in a slot does not travel back
  through \<open>emit\<close> as a Python exception; what happens to it is PyQt's doing and is set
  outside this module. Before PyQt 5.5, or with an exception hook installed that returns,
  \<open>emit\<close> returns and the loop goes on: the definition follows this case and records the
  exception in \<open>slot_errors\<close>. From PyQt 5.5 on with the default hook the process is
  aborted inside \<open>emit\<close>; the definition does not follow that case, so a world with a new
  entry in \<open>slot_errors\<close> is one the process may not have reached.
\<close>

definition got_line_emit :: "string \<Rightarrow> world \<Rightarrow> world" where
  "got_line_emit line w =
     (case run_command line (w\<lparr>emitted := emitted w @ [line]\<rparr>) of
        Inl (e, w') \<Rightarrow> w'\<lparr>slot_errors := slot_errors w' @ [e]\<rparr>
      | Inr w' \<Rightarrow> w')"

text \<open>The body of the loop \<open>for line in self._fifo: self.got_line.emit(line.rstrip('\r\n'))\<close>,
  over the lines the iterator yields.\<close>

fun emit_lines :: "string list \<Rightarrow> world \<Rightarrow> world" where
  "emit_lines [] w = w"
| "emit_lines (line # rest) w = emit_lines rest (got_line_emit (rstrip_crlf line) w)"

text \<open>\<open>QtFIFOReader.__init__\<close>: opens the path and enables a notifier on it.\<close>

definition QtFIFOReader_init :: "world \<Rightarrow> py_error + QtFIFOReader" where
  "QtFIFOReader_init w =
     (case os_open w of
        Inl e \<Rightarrow> Inl e
      | Inr _ \<Rightarrow> Inr \<lparr>notifier_enabled = True, fifo_closed = False\<rparr>)"

text \<open>
  \<open>reader.read_line()\<close>, the slot of the notifier. Calling a method on a global that is
  still \<open>None\<close> raises \<open>AttributeError\<close>; iterating a closed file raises \<open>ValueError\<close>.
  When the codec rejects the pending bytes, the loop raises \<open>UnicodeDecodeError\<close> after
  the lines it did hand out, and the notifier is not enabled again.
\<close>

definition read_line :: "world \<Rightarrow> outcome" where
  "read_line w =
     (case reader w of
        None \<Rightarrow> Inl (AttributeError, w)
      | Some r \<Rightarrow>
          let w1 = w\<lparr>reader := Some (r\<lparr>notifier_enabled := False\<rparr>)\<rparr> in
          if fifo_closed r then Inl (ValueError, w1)
          else
            (case decode_error w1 (pipe_bytes w1) of
               Some (ls, rest) \<Rightarrow>
                 Inl (UnicodeDecodeError, emit_lines ls (w1\<lparr>pipe_bytes := rest\<rparr>))
             | None \<Rightarrow>
                 let w2 = emit_lines (fifo_lines (pipe_bytes w1)) (w1\<lparr>pipe_bytes := []\<rparr>)
                 in Inr (w2\<lparr>reader :=
                            map_option (\<lambda>r. r\<lparr>notifier_enabled := True\<rparr>) (reader w2)\<rparr>)))"

text \<open>\<open>reader.cleanup()\<close>: the same drain, then \<open>self._fifo.close()\<close>, which an exception
  in the drain keeps from being reached.\<close>

definition reader_cleanup :: "world \<Rightarrow> outcome" where
  "reader_cleanup w =
     (case reader w of
        None \<Rightarrow> Inl (AttributeError, w)
      | Some r \<Rightarrow>
          let w1 = w\<lparr>reader := Some (r\<lparr>notifier_enabled := False\<rparr>)\<rparr> in
          if fifo_closed r then Inl (ValueError, w1)
          else
            (case decode_error w1 (pipe_bytes w1) of
               Some (ls, rest) \<Rightarrow>
                 Inl (UnicodeDecodeError, emit_lines ls (w1\<lparr>pipe_bytes := rest\<rparr>))
             | None \<Rightarrow>
                 let w2 = emit_lines (fifo_lines (pipe_bytes w1)) (w1\<lparr>pipe_bytes := []\<rparr>)
                 in Inr (w2\<lparr>reader :=
                            map_option (\<lambda>r. r\<lparr>fifo_closed := True\<rparr>) (reader w2)\<rparr>)))"

subsection \<open>Module functions \<open>init\<close> and \<open>cleanup\<close>\<close>

text \<open>
  \<open>init\<close>: removes a stale entry (a failure is shown, not raised), creates the pipe (an
  \<open>OSError\<close> is shown, not raised; any other exception escapes), and then in every case
  constructs the reader and assigns the global.
\<close>

definition init :: "world \<Rightarrow> outcome" where
  "init w =
     (let w1 = (if os_path_exists w then
                  (case os_remove w of
                     Inl e \<Rightarrow> message_error (CouldntRemove e) w
                   | Inr w' \<Rightarrow> w')
                else w);
          created =
            (case os_mkfifo w1 of
               Inr w2 \<Rightarrow> Inr w2
             | Inl err \<Rightarrow>
                 (case err of
                    OSError e \<Rightarrow> Inr (message_error (CouldntCreate e) w1)
                  | _ \<Rightarrow> Inl (err, w1)))
      in case created of
           Inl x \<Rightarrow> Inl x
         | Inr w3 \<Rightarrow>
             (case QtFIFOReader_init w3 of
                Inl err \<Rightarrow> Inl (err, w3)
              | Inr r \<Rightarrow> Inr (w3\<lparr>reader := Some r\<rparr>)))"

text \<open>\<open>cleanup\<close>: nothing off POSIX; otherwise the reader's cleanup, then \<open>os.remove\<close>
  with every \<open>OSError\<close> passed over.\<close>

definition cleanup :: "world \<Rightarrow> outcome" where
  "cleanup w =
     (if \<not> os_posix w then Inr w
      else case reader_cleanup w of
             Inl x \<Rightarrow> Inl x
           | Inr w1 \<Rightarrow> (case os_remove w1 of Inl e \<Rightarrow> Inr w1 | Inr w2 \<Rightarrow> Inr w2))"

subsection \<open>Scenarios\<close>

text \<open>Every scenario has the codec ISO-8859-1, which decodes every byte.\<close>

text \<open>The channel after a successful \<open>init\<close> on POSIX: the pipe exists and is empty, the
  reader is attached, the mode is \<open>last-focused\<close> and window 1 is registered.\<close>

definition active_world :: world where
  "active_world =
     \<lparr>os_posix = True, fifo_entry = Some Fifo, dir_writable = True, pipe_bytes = [],
      codec_error = (\<lambda>bs. None),
      reader = Some \<lparr>notifier_enabled = True, fifo_closed = False\<rparr>,
      win_mode = ''last-focused'',
      focused_window = Some 1, opened_window = Some 1, visible_window = Some 1,
      shown_errors = [], emitted = [], executed = [], slot_errors = []\<rparr>"

text \<open>Before \<open>init\<close>, on POSIX, with a runtime directory that does not permit creating the
  pipe and nothing at the pipe path.\<close>

definition unwritable_world :: world where
  "unwritable_world =
     \<lparr>os_posix = True, fifo_entry = None, dir_writable = False, pipe_bytes = [],
      codec_error = (\<lambda>bs. None),
      reader = None,
      win_mode = ''last-focused'',
      focused_window = Some 1, opened_window = Some 1, visible_window = Some 1,
      shown_errors = [], emitted = [], executed = [], slot_errors = []\<rparr>"

text \<open>Before \<open>init\<close>, on a platform that is not POSIX.\<close>

definition non_posix_world :: world where
  "non_posix_world =
     \<lparr>os_posix = False, fifo_entry = None, dir_writable = True, pipe_bytes = [],
      codec_error = (\<lambda>bs. None),
      reader = None,
      win_mode = ''last-focused'',
      focused_window = Some 1, opened_window = Some 1, visible_window = Some 1,
      shown_errors = [], emitted = [], executed = [], slot_errors = []\<rparr>"


text \<open>The active channel with the mode \<open>first-opened\<close>, which \<open>run_command\<close> has no branch
  for.\<close>

definition first_opened_world :: world where
  "first_opened_world =
     \<lparr>os_posix = True, fifo_entry = Some Fifo, dir_writable = True, pipe_bytes = [],
      codec_error = (\<lambda>bs. None),
      reader = Some \<lparr>notifier_enabled = True, fifo_closed = False\<rparr>,
      win_mode = ''first-opened'',
      focused_window = Some 1, opened_window = Some 1, visible_window = Some 1,
      shown_errors = [], emitted = [], executed = [], slot_errors = []\<rparr>"

text \<open>The active channel after something else has already deleted the pipe's entry.\<close>

definition unlinked_world :: world where
  "unlinked_world =
     \<lparr>os_posix = True, fifo_entry = None, dir_writable = True, pipe_bytes = [],
      codec_error = (\<lambda>bs. None),
      reader = Some \<lparr>notifier_enabled = True, fifo_closed = False\<rparr>,
      win_mode = ''last-focused'',
      focused_window = Some 1, opened_window = Some 1, visible_window = Some 1,
      shown_errors = [], emitted = [], executed = [], slot_errors = []\<rparr>"


section \<open>Properties\<close>

subsection \<open>Stripping line terminators\<close>




subsection \<open>What an emission and a drain change\<close>

lemma got_line_emit_emitted [simp]:
  "emitted (got_line_emit line w) = emitted w @ [line]"
  by (simp add: got_line_emit_def run_command_def run_safely_def Let_def
      last_focused_window_def last_window_def last_visible_window_def
      split: option.splits)

lemma got_line_emit_kept [simp]:
  "pipe_bytes (got_line_emit line w) = pipe_bytes w"
  "reader (got_line_emit line w) = reader w"
  "shown_errors (got_line_emit line w) = shown_errors w"
  "fifo_entry (got_line_emit line w) = fifo_entry w"
  "dir_writable (got_line_emit line w) = dir_writable w"
  "os_posix (got_line_emit line w) = os_posix w"
  "win_mode (got_line_emit line w) = win_mode w"
  "focused_window (got_line_emit line w) = focused_window w"
  by (simp_all add: got_line_emit_def run_command_def run_safely_def Let_def
      last_focused_window_def last_window_def last_visible_window_def
      split: option.splits)

lemma emit_lines_emitted [simp]:
  "emitted (emit_lines ls w) = emitted w @ map rstrip_crlf ls"
  by (induction ls arbitrary: w) simp_all

lemma emit_lines_kept [simp]:
  "pipe_bytes (emit_lines ls w) = pipe_bytes w"
  "reader (emit_lines ls w) = reader w"
  "shown_errors (emit_lines ls w) = shown_errors w"
  "fifo_entry (emit_lines ls w) = fifo_entry w"
  "dir_writable (emit_lines ls w) = dir_writable w"
  "os_posix (emit_lines ls w) = os_posix w"
  "win_mode (emit_lines ls w) = win_mode w"
  "focused_window (emit_lines ls w) = focused_window w"
  by (induction ls arbitrary: w) simp_all

lemma got_line_emit_focused:
  "win_mode w = ''last-focused'' \<Longrightarrow> focused_window w = Some i \<Longrightarrow>
   executed (got_line_emit line w) = executed w @ [(i, line)] \<and>
   slot_errors (got_line_emit line w) = slot_errors w"
  by (simp add: got_line_emit_def run_command_def run_safely_def Let_def last_focused_window_def)

lemma emit_lines_focused:
  "win_mode w = ''last-focused'' \<Longrightarrow> focused_window w = Some i \<Longrightarrow>
   executed (emit_lines ls w) = executed w @ map (\<lambda>l. (i, rstrip_crlf l)) ls \<and>
   slot_errors (emit_lines ls w) = slot_errors w"
  by (induction ls arbitrary: w) (simp_all add: got_line_emit_focused)

lemma ascii_decodes:
  "ascii_text bs \<Longrightarrow> decode_error w bs = None"
  by (simp add: decode_error_def)

lemma decode_error_reader [simp]:
  "decode_error (w\<lparr>reader := x\<rparr>) bs = decode_error w bs"
  by (simp add: decode_error_def)

lemma decode_error_write_pipe [simp]:
  "decode_error (write_pipe cs w) bs = decode_error w bs"
  by (simp add: decode_error_def write_pipe_def)

lemma read_line_open:
  "reader w = Some r \<Longrightarrow> \<not> fifo_closed r \<Longrightarrow> decode_error w (pipe_bytes w) = None \<Longrightarrow>
   read_line w =
     Inr ((emit_lines (fifo_lines (pipe_bytes w))
            (w\<lparr>reader := Some (r\<lparr>notifier_enabled := False\<rparr>), pipe_bytes := []\<rparr>))
          \<lparr>reader := Some (r\<lparr>notifier_enabled := True\<rparr>)\<rparr>)"
  by (simp add: read_line_def Let_def)

lemma reader_cleanup_open:
  "reader w = Some r \<Longrightarrow> \<not> fifo_closed r \<Longrightarrow> decode_error w (pipe_bytes w) = None \<Longrightarrow>
   reader_cleanup w =
     Inr ((emit_lines (fifo_lines (pipe_bytes w))
            (w\<lparr>reader := Some (r\<lparr>notifier_enabled := False\<rparr>), pipe_bytes := []\<rparr>))
          \<lparr>reader := Some \<lparr>notifier_enabled = False, fifo_closed = True\<rparr>\<rparr>)"
  by (simp add: reader_cleanup_def Let_def)


lemma reader_cleanup_returns:
  "reader_cleanup w = Inr w' \<Longrightarrow>
   \<exists>r. reader w = Some r \<and> \<not> fifo_closed r \<and> decode_error w (pipe_bytes w) = None"
  by (auto simp: reader_cleanup_def Let_def split: option.splits if_splits)

lemma read_line_undecodable:
  assumes "reader w = Some r" and "\<not> fifo_closed r"
    and "decode_error w (pipe_bytes w) = Some (ls, rest)"
  shows "raised (read_line w) = Some UnicodeDecodeError"
    and "reader (world_of (read_line w)) = Some (r\<lparr>notifier_enabled := False\<rparr>)"
    and "emitted (world_of (read_line w)) = emitted w @ map rstrip_crlf ls"
  using assms by (simp_all add: read_line_def raised_def world_of_def Let_def)

lemma read_line_emitted:
  assumes "reader w = Some r" and "\<not> fifo_closed r" and "decode_error w (pipe_bytes w) = None"
  shows "raised (read_line w) = None"
    and "emitted (world_of (read_line w)) = emitted w @ map rstrip_crlf (fifo_lines (pipe_bytes w))"
    and "pipe_bytes (world_of (read_line w)) = []"
    and "reader (world_of (read_line w)) = Some (r\<lparr>notifier_enabled := True\<rparr>)"
    and "win_mode (world_of (read_line w)) = win_mode w"
    and "focused_window (world_of (read_line w)) = focused_window w"
  using assms by (simp_all add: read_line_open raised_def world_of_def)

lemma read_line_executed:
  assumes "reader w = Some r" and "\<not> fifo_closed r" and "decode_error w (pipe_bytes w) = None"
    and "win_mode w = ''last-focused''" and "focused_window w = Some i"
  shows "executed (world_of (read_line w)) =
           executed w @ map (\<lambda>l. (i, rstrip_crlf l)) (fifo_lines (pipe_bytes w))"
  using assms by (simp add: read_line_open world_of_def emit_lines_focused)

lemma ascii_reload: "ascii_text (''reload'' @ [LF])"
  by (simp add: ascii_text_def)

lemma ascii_scroll: "ascii_text (''scroll down'' @ [CR, LF])"
  by (simp add: ascii_text_def)

lemma ascii_both: "ascii_text ((''reload'' @ [LF]) @ ''scroll down'' @ [CR, LF])"
  by (simp add: ascii_text_def)

lemma ascii_newline: "ascii_text [LF]"
  by (simp add: ascii_text_def)

lemma lines_reload: "map rstrip_crlf (fifo_lines (''reload'' @ [LF])) = [''reload'']"
  by (simp add: fifo_lines_def rstrip_crlf_def)

lemma lines_scroll: "map rstrip_crlf (fifo_lines (''scroll down'' @ [CR, LF])) = [''scroll down'']"
  by (simp add: fifo_lines_def rstrip_crlf_def)

lemma lines_both:
  "map rstrip_crlf (fifo_lines ((''reload'' @ [LF]) @ ''scroll down'' @ [CR, LF])) =
     [''reload'', ''scroll down'']"
  by (simp add: fifo_lines_def rstrip_crlf_def)

lemma lines_newline: "map rstrip_crlf (fifo_lines [LF]) = [[]]"
  by (simp add: fifo_lines_def rstrip_crlf_def)

subsection \<open>A drain over complete lines and an unterminated remainder\<close>

text \<open>
  With \<open>k\<close> lines, each followed by \<open>\n\<close>, and a non-empty remainder \<open>p\<close> in the pipe
  (no \<open>\r\<close> or \<open>\n\<close> inside them), a drain emits the \<open>k\<close> lines and then \<open>p\<close>, and
  leaves the pipe empty.
\<close>

lemma universal_newlines_no_cr:
  "CR \<notin> set s \<Longrightarrow> universal_newlines s = s"
  by (induction s rule: universal_newlines.induct) auto

lemma readlines_partial:
  "LF \<notin> set p \<Longrightarrow> readlines cur p = (if cur @ p = [] then [] else [cur @ p])"
  by (induction p arbitrary: cur) auto

lemma readlines_line:
  "LF \<notin> set l \<Longrightarrow> readlines cur (l @ LF # rest) = (cur @ l @ [LF]) # readlines [] rest"
  by (induction l arbitrary: cur) auto

lemma readlines_complete_lines:
  assumes "\<forall>l \<in> set ls. LF \<notin> set l"
  shows "readlines [] (concat (map (\<lambda>l. l @ [LF]) ls) @ rest) =
           map (\<lambda>l. l @ [LF]) ls @ readlines [] rest"
  using assms by (induction ls) (simp_all add: readlines_line)

lemma rstrip_crlf_line:
  assumes "CR \<notin> set l" and "LF \<notin> set l"
  shows "rstrip_crlf (l @ [LF]) = l" and "rstrip_crlf l = l"
proof -
  have "dropWhile (\<lambda>c. c = CR \<or> c = LF) (rev l) = rev l"
    using assms by (cases "rev l") auto
  then show "rstrip_crlf (l @ [LF]) = l" and "rstrip_crlf l = l"
    by (simp_all add: rstrip_crlf_def)
qed

lemma fifo_lines_with_partial:
  assumes "\<forall>l \<in> set ls. CR \<notin> set l \<and> LF \<notin> set l"
    and "CR \<notin> set p" and "LF \<notin> set p" and "p \<noteq> []"
  shows "map rstrip_crlf (fifo_lines (concat (map (\<lambda>l. l @ [LF]) ls) @ p)) = ls @ [p]"
proof -
  let ?text = "concat (map (\<lambda>l. l @ [LF]) ls) @ p"
  have "CR \<notin> set ?text" using assms by auto
  then have "fifo_lines ?text = readlines [] ?text"
    by (simp add: fifo_lines_def universal_newlines_no_cr)
  also have "\<dots> = map (\<lambda>l. l @ [LF]) ls @ readlines [] p"
    using assms(1) by (simp add: readlines_complete_lines)
  also have "readlines [] p = [p]"
    using assms(3,4) by (simp add: readlines_partial)
  finally have "fifo_lines ?text = map (\<lambda>l. l @ [LF]) ls @ [p]" .
  moreover have "map rstrip_crlf (map (\<lambda>l. l @ [LF]) ls) = ls"
    using assms(1) by (induction ls) (simp_all add: rstrip_crlf_line)
  ultimately show ?thesis
    using assms(2,3) by (simp add: rstrip_crlf_line)
qed

lemma read_line_emits_every_partial_line:
  assumes "reader w = Some r" and "\<not> fifo_closed r"
    and "pipe_bytes w = concat (map (\<lambda>l. l @ [LF]) ls) @ p"
    and "\<forall>l \<in> set ls. CR \<notin> set l \<and> LF \<notin> set l"
    and "CR \<notin> set p" and "LF \<notin> set p" and "p \<noteq> []"
    and "decode_error w (pipe_bytes w) = None"
  shows "emitted (world_of (read_line w)) = emitted w @ ls @ [p]"
    and "pipe_bytes (world_of (read_line w)) = []"
  using read_line_emitted(2,3) [OF assms(1,2,8)] fifo_lines_with_partial [OF assms(4-7)] assms(3)
  by simp_all

subsection \<open>A startup that succeeds\<close>

lemma init_attaches_reader:
  assumes "os_posix w" and "fifo_entry w = None" and "dir_writable w"
  shows "init w =
           Inr (w\<lparr>fifo_entry := Some Fifo, pipe_bytes := [],
                  reader := Some \<lparr>notifier_enabled = True, fifo_closed = False\<rparr>\<rparr>)"
  using assms
  by (simp add: init_def os_path_exists_def os_mkfifo_def os_open_def QtFIFOReader_init_def
      Let_def)

lemma init_replaces_stale_entry:
  assumes "os_posix w" and "fifo_entry w = Some RegularFile" and "dir_writable w"
  shows "init w =
           Inr (w\<lparr>fifo_entry := Some Fifo, pipe_bytes := [],
                  reader := Some \<lparr>notifier_enabled = True, fifo_closed = False\<rparr>\<rparr>)"
  using assms
  by (simp add: init_def os_path_exists_def os_remove_def os_mkfifo_def os_open_def
      QtFIFOReader_init_def Let_def)

lemma init_keeps_directory_at_path:
  assumes "os_posix w" and "fifo_entry w = Some Directory" and "\<not> dir_writable w"
  shows "init w =
           Inl (OSError EISDIR,
                w\<lparr>shown_errors := shown_errors w @ [CouldntRemove EACCES, CouldntCreate EEXIST]\<rparr>)"
  using assms
  by (simp add: init_def os_path_exists_def os_remove_def os_mkfifo_def os_open_def
      QtFIFOReader_init_def message_error_def Let_def)

subsection \<open>Evaluating the scenarios\<close>

lemmas drain_defs = read_line_def write_pipe_def decode_error_def ascii_text_def
  fifo_lines_def rstrip_crlf_def got_line_emit_def run_command_def last_focused_window_def
  run_safely_def world_of_def raised_def Let_def

section \<open>The claims\<close>

subsection \<open>Reading lines\<close>

text \<open>
  C1. The spec has a drain emit the complete lines only and keep an unterminated remainder
  for later bytes to complete, and \<open>got_line\<close> is documented as "emitted when a whole line
  arrived". The loop emits the remainder as well: with \<open>reload\n\<close> and the fragment \<open>scr\<close>
  in the pipe, \<open>read_line\<close> emits \<open>reload\<close> and \<open>scr\<close> and leaves nothing to read; when
  \<open>oll\n\<close> arrives, the next drain emits \<open>oll\<close> on its own.
\<close>

theorem read_line_emits_partial_line:
  "read_line (write_pipe (''reload'' @ [LF] @ ''scr'') active_world) =
     Inr (active_world\<lparr>emitted := [''reload'', ''scr''],
                       executed := [(1, ''reload''), (1, ''scr'')]\<rparr>) \<and>
   pipe_bytes (world_of (read_line (write_pipe (''reload'' @ [LF] @ ''scr'') active_world))) = [] \<and>
   emitted (world_of (read_line (write_pipe (''oll'' @ [LF])
      (world_of (read_line (write_pipe (''reload'' @ [LF] @ ''scr'') active_world)))))) =
     [''reload'', ''scr'', ''oll'']"
  by (simp add: active_world_def drain_defs)

text \<open>
  C6. On an open reader with an empty pipe, the bytes \<open>reload\n\<close> followed by
  \<open>scroll down\r\n\<close> are emitted as \<open>reload\<close> and \<open>scroll down\<close>, in that order and nothing
  else, whether one drain sees both writes or a drain runs after each; with the mode
  \<open>last-focused\<close> and window \<open>i\<close> registered, exactly these two commands are run, in
  window \<open>i\<close>.
\<close>

theorem reload_scroll_down_round_trip:
  assumes "reader w = Some r" and "\<not> fifo_closed r" and "pipe_bytes w = []"
  shows "(let both = read_line (write_pipe (''scroll down'' @ [CR, LF])
                       (write_pipe (''reload'' @ [LF]) w))
          in raised both = None \<and>
             emitted (world_of both) = emitted w @ [''reload'', ''scroll down''] \<and>
             (win_mode w = ''last-focused'' \<and> focused_window w = Some i \<longrightarrow>
                executed (world_of both) = executed w @ [(i, ''reload''), (i, ''scroll down'')])) \<and>
         (let first = read_line (write_pipe (''reload'' @ [LF]) w);
              second = read_line (write_pipe (''scroll down'' @ [CR, LF]) (world_of first))
          in raised first = None \<and> raised second = None \<and>
             emitted (world_of first) = emitted w @ [''reload''] \<and>
             emitted (world_of second) = emitted w @ [''reload'', ''scroll down''] \<and>
             (win_mode w = ''last-focused'' \<and> focused_window w = Some i \<longrightarrow>
                executed (world_of second) = executed w @ [(i, ''reload''), (i, ''scroll down'')]))"
proof -
  let ?a = "''reload'' @ [LF]" and ?b = "''scroll down'' @ [CR, LF]"
  let ?w1 = "write_pipe ?a w"
  let ?w2 = "write_pipe ?b ?w1"
  have r1: "reader ?w1 = Some r" and p1: "pipe_bytes ?w1 = ?a"
    using assms by (simp_all add: write_pipe_def)
  have r2: "reader ?w2 = Some r" and p2: "pipe_bytes ?w2 = ?a @ ?b"
    using assms by (simp_all add: write_pipe_def)
  have k1: "emitted ?w1 = emitted w" "executed ?w1 = executed w"
    "win_mode ?w1 = win_mode w" "focused_window ?w1 = focused_window w"
    and k2: "emitted ?w2 = emitted w" "executed ?w2 = executed w"
    "win_mode ?w2 = win_mode w" "focused_window ?w2 = focused_window w"
    by (simp_all add: write_pipe_def)
  have d1: "decode_error ?w1 (pipe_bytes ?w1) = None"
    unfolding p1 by (rule ascii_decodes [OF ascii_reload])
  have d2: "decode_error ?w2 (pipe_bytes ?w2) = None"
    unfolding p2 by (rule ascii_decodes [OF ascii_both])
  let ?f = "world_of (read_line ?w1)"
  let ?w3 = "write_pipe ?b ?f"
  have r3: "reader ?w3 = Some (r\<lparr>notifier_enabled := True\<rparr>)"
    and c3: "\<not> fifo_closed (r\<lparr>notifier_enabled := True\<rparr>)"
    and p3: "pipe_bytes ?w3 = ?b"
    using read_line_emitted(3,4) [OF r1 assms(2) d1] assms(2) by (simp_all add: write_pipe_def)
  have d3: "decode_error ?w3 (pipe_bytes ?w3) = None"
    unfolding p3 by (rule ascii_decodes [OF ascii_scroll])
  have k3: "emitted ?w3 = emitted ?f" "executed ?w3 = executed ?f"
    "win_mode ?w3 = win_mode w" "focused_window ?w3 = focused_window w"
    using read_line_emitted(5,6) [OF r1 assms(2) d1] k1 by (simp_all add: write_pipe_def)
  have both: "raised (read_line ?w2) = None"
    "emitted (world_of (read_line ?w2)) = emitted w @ [''reload'', ''scroll down'']"
    using read_line_emitted(1,2) [OF r2 assms(2) d2] k2 p2 lines_both by simp_all
  have both_ex:
    "executed (world_of (read_line ?w2)) = executed w @ [(i, ''reload''), (i, ''scroll down'')]"
    if "win_mode w = ''last-focused''" "focused_window w = Some i"
    using read_line_executed [OF r2 assms(2) d2, of i] that k2 p2
    by (simp add: fifo_lines_def rstrip_crlf_def)
  have first: "raised (read_line ?w1) = None" "emitted ?f = emitted w @ [''reload'']"
    using read_line_emitted(1,2) [OF r1 assms(2) d1] k1 p1 lines_reload by simp_all
  have first_ex: "executed ?f = executed w @ [(i, ''reload'')]"
    if "win_mode w = ''last-focused''" "focused_window w = Some i"
    using read_line_executed [OF r1 assms(2) d1, of i] that k1 p1
    by (simp add: fifo_lines_def rstrip_crlf_def)
  have second: "raised (read_line ?w3) = None"
    "emitted (world_of (read_line ?w3)) = emitted w @ [''reload'', ''scroll down'']"
    using read_line_emitted(1,2) [OF r3 c3 d3] k3 p3 first lines_scroll by simp_all
  have second_ex:
    "executed (world_of (read_line ?w3)) = executed w @ [(i, ''reload''), (i, ''scroll down'')]"
    if "win_mode w = ''last-focused''" "focused_window w = Some i"
    using read_line_executed [OF r3 c3 d3, of i] that k3 p3 first_ex [OF that]
    by (simp add: fifo_lines_def rstrip_crlf_def)
  show ?thesis
    unfolding Let_def using both both_ex first second second_ex by blast
qed

text \<open>C6 at the active channel, where window 1 is the last focused one.\<close>

theorem reload_scroll_down_round_trip_witness:
  "reader active_world = Some \<lparr>notifier_enabled = True, fifo_closed = False\<rparr> \<and>
   pipe_bytes active_world = [] \<and>
   raised (read_line (write_pipe (''scroll down'' @ [CR, LF])
             (write_pipe (''reload'' @ [LF]) active_world))) = None \<and>
   emitted (world_of (read_line (write_pipe (''scroll down'' @ [CR, LF])
             (write_pipe (''reload'' @ [LF]) active_world)))) = [''reload'', ''scroll down''] \<and>
   executed (world_of (read_line (write_pipe (''scroll down'' @ [CR, LF])
             (write_pipe (''reload'' @ [LF]) active_world)))) =
     [(1, ''reload''), (1, ''scroll down'')]"
proof -
  have r: "reader active_world = Some \<lparr>notifier_enabled = True, fifo_closed = False\<rparr>"
    and c: "\<not> fifo_closed \<lparr>notifier_enabled = True, fifo_closed = False\<rparr>"
    and p: "pipe_bytes active_world = []"
    and m: "win_mode active_world = ''last-focused''"
    and f: "focused_window active_world = Some 1"
    and e: "emitted active_world = []" "executed active_world = []"
    by (simp_all add: active_world_def)
  show ?thesis
    using reload_scroll_down_round_trip [OF r c p, of 1] r p m f e by (simp add: Let_def)
qed

text \<open>
  C7. On an open reader with an empty pipe, the single byte \<open>\n\<close> is emitted as one
  command, the empty string; with the mode \<open>last-focused\<close> and window \<open>i\<close> registered the
  empty command is run once, in window \<open>i\<close>.
\<close>

theorem lone_newline_is_one_empty_command:
  assumes "reader w = Some r" and "\<not> fifo_closed r" and "pipe_bytes w = []"
  shows "raised (read_line (write_pipe [LF] w)) = None \<and>
         emitted (world_of (read_line (write_pipe [LF] w))) = emitted w @ [[]] \<and>
         (win_mode w = ''last-focused'' \<and> focused_window w = Some i \<longrightarrow>
            executed (world_of (read_line (write_pipe [LF] w))) = executed w @ [(i, [])])"
proof -
  let ?w1 = "write_pipe [LF] w"
  have r1: "reader ?w1 = Some r" and p1: "pipe_bytes ?w1 = [LF]"
    using assms by (simp_all add: write_pipe_def)
  have k1: "emitted ?w1 = emitted w" "executed ?w1 = executed w"
    "win_mode ?w1 = win_mode w" "focused_window ?w1 = focused_window w"
    by (simp_all add: write_pipe_def)
  have d1: "decode_error ?w1 (pipe_bytes ?w1) = None"
    unfolding p1 by (rule ascii_decodes [OF ascii_newline])
  have a: "raised (read_line ?w1) = None"
    "emitted (world_of (read_line ?w1)) = emitted w @ [[]]"
    using read_line_emitted(1,2) [OF r1 assms(2) d1] k1 p1 lines_newline by simp_all
  have b: "executed (world_of (read_line ?w1)) = executed w @ [(i, [])]"
    if "win_mode w = ''last-focused''" "focused_window w = Some i"
    using read_line_executed [OF r1 assms(2) d1, of i] that k1 p1
    by (simp add: fifo_lines_def rstrip_crlf_def)
  show ?thesis using a b by blast
qed

text \<open>C7 at the active channel.\<close>

theorem lone_newline_is_one_empty_command_witness:
  "reader active_world = Some \<lparr>notifier_enabled = True, fifo_closed = False\<rparr> \<and>
   pipe_bytes active_world = [] \<and>
   raised (read_line (write_pipe [LF] active_world)) = None \<and>
   emitted (world_of (read_line (write_pipe [LF] active_world))) = [[]] \<and>
   executed (world_of (read_line (write_pipe [LF] active_world))) = [(1, [])]"
proof -
  have r: "reader active_world = Some \<lparr>notifier_enabled = True, fifo_closed = False\<rparr>"
    and c: "\<not> fifo_closed \<lparr>notifier_enabled = True, fifo_closed = False\<rparr>"
    and p: "pipe_bytes active_world = []"
    and m: "win_mode active_world = ''last-focused''"
    and f: "focused_window active_world = Some 1"
    and e: "emitted active_world = []" "executed active_world = []"
    by (simp_all add: active_world_def)
  show ?thesis
    using lone_newline_is_one_empty_command [OF r c p, of 1] r p m f e by simp
qed



subsection \<open>Startup\<close>

text \<open>
  C2. The spec has a failed pipe creation leave the supervisor without a reader and
  \<open>init\<close> return. \<open>init\<close> does show the failure of \<open>os.mkfifo\<close> instead of raising it,
  but then constructs the reader all the same: with a runtime directory that does not
  permit the creation and nothing at the path, \<open>os.mkfifo\<close> fails with \<open>EACCES\<close>, the
  failure is shown, and \<open>os.open\<close> on the missing path raises \<open>OSError\<close> (\<open>ENOENT\<close>), which
  leaves \<open>init\<close>.
\<close>

theorem init_raises_after_failed_mkfifo:
  "os_mkfifo unwritable_world = Inl (OSError EACCES) \<and>
   init unwritable_world =
     Inl (OSError ENOENT, unwritable_world\<lparr>shown_errors := [CouldntCreate EACCES]\<rparr>)"
  by (simp add: unwritable_world_def init_def os_path_exists_def os_mkfifo_def os_open_def
      QtFIFOReader_init_def message_error_def Let_def)

text \<open>
  C5. The spec has the platform checked at startup and at shutdown. \<open>cleanup\<close> checks it
  and does nothing off POSIX; \<open>init\<close> does not check it: off POSIX it goes on to
  \<open>os.mkfifo\<close>, whose \<open>AttributeError\<close> is not an \<open>OSError\<close> and leaves \<open>init\<close>.
\<close>

theorem init_has_no_platform_guard:
  "cleanup non_posix_world = Inr non_posix_world \<and>
   init non_posix_world = Inl (AttributeError, non_posix_world)"
  by (simp add: non_posix_world_def cleanup_def init_def os_path_exists_def os_mkfifo_def
      Let_def)

subsection \<open>Shutdown\<close>

text \<open>
  C3, as the spec states it, fails: at the active channel the first \<open>cleanup\<close> returns and
  the second one raises \<open>ValueError\<close>.
\<close>

theorem second_cleanup_counterexample:
  "raised (cleanup active_world) = None \<and>
   raised (cleanup (world_of (cleanup active_world))) = Some ValueError"
  by (simp add: active_world_def cleanup_def reader_cleanup_def os_remove_def decode_error_def
      ascii_text_def fifo_lines_def
      raised_def world_of_def Let_def)

text \<open>
  C3, amended. After a \<open>cleanup\<close> that returned, a second \<open>cleanup\<close> does nothing off
  POSIX; on POSIX it raises \<open>ValueError\<close> (the final drain iterates the closed file) and
  leaves the world as it found it: the file is not closed again and \<open>os.remove\<close> is not
  reached.
\<close>

theorem second_cleanup_raises_and_releases_nothing:
  assumes "cleanup w = Inr w1"
  shows "cleanup w1 = (if os_posix w then Inl (ValueError, w1) else Inr w1)"
proof (cases "os_posix w")
  case False
  with assms show ?thesis by (auto simp: cleanup_def)
next
  case True
  from assms True obtain w' where rc: "reader_cleanup w = Inr w'"
    and w1: "w1 = w' \<or> w1 = w'\<lparr>fifo_entry := None\<rparr>"
    by (auto simp: cleanup_def os_remove_def
        split: sum.splits option.splits if_splits)
  from reader_cleanup_returns [OF rc] obtain r
    where r: "reader w = Some r" "\<not> fifo_closed r" "decode_error w (pipe_bytes w) = None"
    by blast
  from reader_cleanup_open [OF r] rc
  have "reader w' = Some \<lparr>notifier_enabled = False, fifo_closed = True\<rparr>"
    and "os_posix w' = os_posix w"
    by auto
  with w1 True have "reader w1 = Some \<lparr>notifier_enabled = False, fifo_closed = True\<rparr>"
    and "os_posix w1"
    by auto
  then show ?thesis using True
    by (simp add: cleanup_def reader_cleanup_def Let_def)
qed

text \<open>C3, amended, at the active channel.\<close>

theorem second_cleanup_raises_and_releases_nothing_witness:
  "cleanup active_world = Inr (world_of (cleanup active_world)) \<and>
   cleanup (world_of (cleanup active_world)) =
     Inl (ValueError, world_of (cleanup active_world))"
proof -
  have h: "cleanup active_world = Inr (world_of (cleanup active_world))"
    by (simp add: active_world_def cleanup_def reader_cleanup_def os_remove_def decode_error_def
      ascii_text_def fifo_lines_def
        world_of_def Let_def)
  have p: "os_posix active_world" by (simp add: active_world_def)
  show ?thesis using h second_cleanup_raises_and_releases_nothing [OF h] p by simp
qed

text \<open>
  C8. When the pipe's entry is already gone at shutdown (POSIX, and the reader's own
  cleanup has returned), \<open>os.remove\<close> fails with \<open>ENOENT\<close> and \<open>cleanup\<close> passes over it:
  \<open>cleanup\<close> returns, in the very world the reader's cleanup left, and no error has been
  shown.
\<close>

theorem remove_of_missing_pipe_is_silent:
  assumes "os_posix w" and "reader_cleanup w = Inr w1" and "fifo_entry w = None"
  shows "os_remove w1 = Inl ENOENT \<and> cleanup w = Inr w1 \<and>
         shown_errors w1 = shown_errors w \<and> fifo_entry w1 = None"
proof -
  from reader_cleanup_returns [OF assms(2)] obtain r
    where r: "reader w = Some r" "\<not> fifo_closed r" "decode_error w (pipe_bytes w) = None"
    by blast
  from reader_cleanup_open [OF r] assms(2,3)
  have kept: "fifo_entry w1 = None" "shown_errors w1 = shown_errors w"
    by auto
  then have gone: "os_remove w1 = Inl ENOENT"
    by (simp add: os_remove_def)
  with assms(1,2) have "cleanup w = Inr w1"
    by (simp add: cleanup_def)
  with kept gone show ?thesis by simp
qed

text \<open>C8 at the active channel whose entry something else has deleted.\<close>

theorem remove_of_missing_pipe_is_silent_witness:
  "os_posix unlinked_world \<and>
   reader_cleanup unlinked_world = Inr (world_of (reader_cleanup unlinked_world)) \<and>
   fifo_entry unlinked_world = None \<and>
   os_remove (world_of (reader_cleanup unlinked_world)) = Inl ENOENT \<and>
   cleanup unlinked_world = Inr (world_of (reader_cleanup unlinked_world)) \<and>
   shown_errors (world_of (reader_cleanup unlinked_world)) = []"
proof -
  have p: "os_posix unlinked_world"
    and e: "fifo_entry unlinked_world = None"
    and n: "shown_errors unlinked_world = []"
    by (simp_all add: unlinked_world_def)
  have h: "reader_cleanup unlinked_world = Inr (world_of (reader_cleanup unlinked_world))"
    by (simp add: unlinked_world_def reader_cleanup_def decode_error_def ascii_text_def
        fifo_lines_def world_of_def Let_def)
  show ?thesis using p h e n remove_of_missing_pipe_is_silent [OF p h e] by simp
qed

subsection \<open>Dispatch\<close>




text \<open>
  C9. For every mode other than \<open>last-focused\<close>, \<open>last-opened\<close> and \<open>last-visible\<close>,
  \<open>run_command\<close> raises \<open>UnboundLocalError\<close> for any command and runs nothing.
\<close>

theorem unrecognized_mode_raises:
  assumes "win_mode w \<noteq> ''last-focused''" and "win_mode w \<noteq> ''last-opened''"
    and "win_mode w \<noteq> ''last-visible''"
  shows "run_command cmd w = Inl (UnboundLocalError, w) \<and>
         executed (world_of (run_command cmd w)) = executed w"
  using assms by (simp add: run_command_def world_of_def Let_def)

text \<open>C9 at the active channel with the mode \<open>first-opened\<close>.\<close>

theorem unrecognized_mode_raises_witness:
  "win_mode first_opened_world \<noteq> ''last-focused'' \<and>
   win_mode first_opened_world \<noteq> ''last-opened'' \<and>
   win_mode first_opened_world \<noteq> ''last-visible'' \<and>
   run_command ''reload'' first_opened_world = Inl (UnboundLocalError, first_opened_world) \<and>
   executed (world_of (run_command ''reload'' first_opened_world)) =
     executed first_opened_world"
proof -
  have a: "win_mode first_opened_world \<noteq> ''last-focused''"
    and b: "win_mode first_opened_world \<noteq> ''last-opened''"
    and c: "win_mode first_opened_world \<noteq> ''last-visible''"
    by (simp_all add: first_opened_world_def)
  show ?thesis
    using a b c unrecognized_mode_raises [OF a b c, of "''reload''"]
    by (simp add: world_of_def)
qed

end
